theory Spec2Isabelle
  imports Main "HOL-Library.Word"
begin

unbundle bit_operations_syntax

section \<open>The service interface consumed by \<^verbatim>\<open>main_windows.go\<close>\<close>

text \<open>
  \<^verbatim>\<open>svc.Cmd\<close>, \<^verbatim>\<open>svc.State\<close> and \<^verbatim>\<open>svc.Accepted\<close> are \<^verbatim>\<open>uint32\<close> in
  \<^verbatim>\<open>golang.org/x/sys/windows/svc\<close>; the constants carry the values of the Windows
  \<^verbatim>\<open>SERVICE_CONTROL_*\<close>, \<^verbatim>\<open>SERVICE_*\<close> (state) and \<^verbatim>\<open>SERVICE_ACCEPT_*\<close> constants.
  Only the ones \<^verbatim>\<open>Execute\<close> names are listed.
\<close>

type_synonym uint32 = "32 word"
type_synonym uintptr = "64 word"

definition svc_Stop :: uint32 where "svc_Stop = 1"
definition svc_Pause :: uint32 where "svc_Pause = 2"
definition svc_Continue :: uint32 where "svc_Continue = 3"
definition svc_Interrogate :: uint32 where "svc_Interrogate = 4"
definition svc_Shutdown :: uint32 where "svc_Shutdown = 5"

definition svc_StartPending :: uint32 where "svc_StartPending = 2"
definition svc_StopPending :: uint32 where "svc_StopPending = 3"
definition svc_Running :: uint32 where "svc_Running = 4"
definition svc_Paused :: uint32 where "svc_Paused = 7"

definition svc_AcceptStop :: uint32 where "svc_AcceptStop = 1"
definition svc_AcceptPauseAndContinue :: uint32 where "svc_AcceptPauseAndContinue = 2"
definition svc_AcceptShutdown :: uint32 where "svc_AcceptShutdown = 4"

text \<open>\<^verbatim>\<open>svc.Status\<close> and \<^verbatim>\<open>svc.ChangeRequest\<close>, field by field.\<close>

record Status =
  State :: uint32
  Accepts :: uint32
  CheckPoint :: uint32
  WaitHint :: uint32
  ProcessId :: uint32
  Win32ExitCode :: uint32
  ServiceSpecificExitCode :: uint32

record ChangeRequest =
  Cmd :: uint32
  EventType :: uint32
  EventData :: uintptr
  CurrentStatus :: Status
  Context :: uintptr

text \<open>The zero value of \<^verbatim>\<open>svc.Status\<close>: a composite literal leaves the fields it
  does not name at zero.\<close>

definition Status_zero :: Status where
  "Status_zero = \<lparr>State = 0, Accepts = 0, CheckPoint = 0, WaitHint = 0, ProcessId = 0,
     Win32ExitCode = 0, ServiceSpecificExitCode = 0\<rparr>"

text \<open>
  The control requests a host may deliver under an \<^verbatim>\<open>Accepts\<close> mask, among the five
  that \<^verbatim>\<open>Execute\<close> handles: one bit for stop, one for shutdown, and a single bit
  for pause and continue together. Interrogate needs no bit.
\<close>

definition accepted :: "uint32 \<Rightarrow> uint32 set" where
  "accepted a =
     (if a AND svc_AcceptStop = 0 then {} else {svc_Stop}) \<union>
     (if a AND svc_AcceptShutdown = 0 then {} else {svc_Shutdown}) \<union>
     (if a AND svc_AcceptPauseAndContinue = 0 then {} else {svc_Pause, svc_Continue})"

section \<open>Observable events\<close>

text \<open>
  Everything \<^verbatim>\<open>Execute\<close> and \<^verbatim>\<open>runWindowsService\<close> do to the outside is a call or a
  channel operation. Each one is recorded, in program order, when it completes: Go calls
  are synchronous, so \<open>Cmd_Close h\<close> in a trace means \<^verbatim>\<open>c.Close()\<close> has returned, and
  \<open>StatusSend st\<close> means the send on \<^verbatim>\<open>statusCh\<close> has gone through. A
  \<^verbatim>\<open>ReplicateCommand\<close> is identified by its allocation number; a context by a number.
\<close>

datatype writer = os_Stderr | eventlogWriter | other_Writer nat

datatype event =
    StatusSend Status
  | ChangeRecv ChangeRequest
  | Cmd_New nat
  | Cmd_Run nat nat
  | Cmd_Close nat
  | elog_Info uint32 string
  | elog_Error uint32 string
  | elog_Close
  | eventlog_Open string
  | eventlog_InstallAsEventCreate string uint32
  | log_SetOutput writer

section \<open>Formatting with \<^verbatim>\<open>%d\<close>\<close>

text \<open>
  \<^verbatim>\<open>fmt.Sprintf("%d", v)\<close>: an unsigned integer prints in decimal; a struct prints as
  its fields in order, each with the same verb, separated by one space, in braces.
\<close>

fun decimal :: "nat \<Rightarrow> string" where
  "decimal n =
     (if n < 10 then [''0123456789'' ! n]
      else decimal (n div 10) @ [''0123456789'' ! (n mod 10)])"

declare decimal.simps [simp del]

text \<open>Reading a decimal numeral back: the value of a digit, and of a string of digits.\<close>

definition digit_value :: "char \<Rightarrow> nat" where
  "digit_value ch = of_char ch - 48"

definition parse_decimal :: "string \<Rightarrow> nat" where
  "parse_decimal cs = foldl (\<lambda>a ch. 10 * a + digit_value ch) 0 cs"

definition fmt_d_Status :: "Status \<Rightarrow> string" where
  "fmt_d_Status st =
     ''{'' @ decimal (unat (State st)) @ '' '' @ decimal (unat (Accepts st)) @ '' '' @
     decimal (unat (CheckPoint st)) @ '' '' @ decimal (unat (WaitHint st)) @ '' '' @
     decimal (unat (ProcessId st)) @ '' '' @ decimal (unat (Win32ExitCode st)) @ '' '' @
     decimal (unat (ServiceSpecificExitCode st)) @ ''}''"

definition fmt_d_ChangeRequest :: "ChangeRequest \<Rightarrow> string" where
  "fmt_d_ChangeRequest r =
     ''{'' @ decimal (unat (Cmd r)) @ '' '' @ decimal (unat (EventType r)) @ '' '' @
     decimal (unat (EventData r)) @ '' '' @ fmt_d_Status (CurrentStatus r) @ '' '' @
     decimal (unat (Context r)) @ ''}''"

section \<open>\<^verbatim>\<open>windowsService.Execute\<close>\<close>

text \<open>The receiver. Its \<^verbatim>\<open>elog\<close> is the one event log of the process, so the events
  do not name it; its context is kept by identity.\<close>

record windowsService =
  ctx :: nat

text \<open>
  The state of a running \<^verbatim>\<open>Execute\<close>: the local variable \<^verbatim>\<open>c\<close> (the current
  \<^verbatim>\<open>ReplicateCommand\<close>), the number of commands allocated so far, and the trace.
\<close>

record exec =
  c_cur :: nat
  allocated :: nat
  trace :: "event list"

definition accepts :: uint32 where
  "accepts = svc_AcceptStop OR svc_AcceptShutdown OR svc_AcceptPauseAndContinue"

text \<open>What a branch of the \<^verbatim>\<open>switch\<close> does to the enclosing loop.\<close>

datatype flow = Next_iteration | Return bool uint32

text \<open>
  The body of \<^verbatim>\<open>switch changeReq.Cmd\<close>, case by case in the source's order. No case
  holds a \<^verbatim>\<open>return\<close> or a \<^verbatim>\<open>break\<close>: each falls out of the \<^verbatim>\<open>select\<close> into the
  next iteration of the \<^verbatim>\<open>for\<close>.
\<close>

definition switch_Cmd :: "windowsService \<Rightarrow> ChangeRequest \<Rightarrow> exec \<Rightarrow> flow \<times> exec" where
  "switch_Cmd s changeReq x =
     (if Cmd changeReq = svc_Interrogate then
        (Next_iteration,
         x\<lparr>trace := trace x @
            [elog_Info 1 ''Litestream service interrograted'',
             StatusSend (CurrentStatus changeReq)]\<rparr>)
      else if Cmd changeReq = svc_Stop then
        (Next_iteration,
         x\<lparr>trace := trace x @
            [elog_Info 1 ''Litestream service stopped'',
             Cmd_Close (c_cur x),
             StatusSend (Status_zero\<lparr>State := svc_StopPending\<rparr>)]\<rparr>)
      else if Cmd changeReq = svc_Shutdown then
        (Next_iteration,
         x\<lparr>trace := trace x @
            [elog_Info 1 ''Litestream service shutting down'',
             Cmd_Close (c_cur x),
             StatusSend (Status_zero\<lparr>State := svc_StopPending\<rparr>)]\<rparr>)
      else if Cmd changeReq = svc_Pause then
        (Next_iteration,
         x\<lparr>trace := trace x @
            [elog_Info 1 ''Litestream service paused'',
             Cmd_Close (c_cur x),
             StatusSend (Status_zero\<lparr>State := svc_Paused, Accepts := accepts\<rparr>)]\<rparr>)
      else if Cmd changeReq = svc_Continue then
        (Next_iteration,
         x\<lparr>c_cur := allocated x,
           allocated := Suc (allocated x),
           trace := trace x @
            [elog_Info 1 ''Litestream service continuing'',
             Cmd_Close (c_cur x),
             Cmd_New (allocated x),
             Cmd_Run (allocated x) (ctx s),
             StatusSend (Status_zero\<lparr>State := svc_Running, Accepts := accepts\<rparr>)]\<rparr>)
      else
        (Next_iteration,
         x\<lparr>trace := trace x @
            [elog_Error 1 (''unexpected control request #'' @ fmt_d_ChangeRequest changeReq)]\<rparr>))"

text \<open>
  The \<^verbatim>\<open>for { select { case changeReq := <-changeReqCh: ... } }\<close> loop, run on the
  requests the host delivers. When they are used up the loop is blocked in the receive:
  \<^verbatim>\<open>Execute\<close> has not returned, which is the result \<open>None\<close>. A result
  \<open>Some (ssec, errno)\<close> would be a return from \<^verbatim>\<open>Execute\<close>. The host keeps
  the channel open while \<^verbatim>\<open>Execute\<close> runs; the \<^verbatim>\<open>select\<close> has the receive as its
  only case, so it is a blocking receive.
\<close>

fun Execute_loop ::
  "windowsService \<Rightarrow> exec \<Rightarrow> ChangeRequest list \<Rightarrow> exec \<times> (bool \<times> uint32) option" where
  "Execute_loop s x [] = (x, None)"
| "Execute_loop s x (changeReq # rest) =
     (case switch_Cmd s changeReq (x\<lparr>trace := trace x @ [ChangeRecv changeReq]\<rparr>) of
        (Next_iteration, x') \<Rightarrow> Execute_loop s x' rest
      | (Return ssec errno, x') \<Rightarrow> (x', Some (ssec, errno)))"

text \<open>
  \<^verbatim>\<open>Execute\<close> up to the loop: the StartPending report, the first command created and
  run, the Running report. \<^verbatim>\<open>args\<close> is not used.
\<close>

definition Execute_start :: "windowsService \<Rightarrow> exec" where
  "Execute_start s =
     \<lparr>c_cur = 0, allocated = 1,
      trace =
        [StatusSend (Status_zero\<lparr>State := svc_StartPending\<rparr>),
         Cmd_New 0,
         Cmd_Run 0 (ctx s),
         StatusSend (Status_zero\<lparr>State := svc_Running, Accepts := accepts\<rparr>)]\<rparr>"

definition Execute ::
  "windowsService \<Rightarrow> string list \<Rightarrow> ChangeRequest list \<Rightarrow> exec \<times> (bool \<times> uint32) option" where
  "Execute s args changeReqCh = Execute_loop s (Execute_start s) changeReqCh"

section \<open>Reading a trace\<close>

text \<open>The request \<open>cmd\<close> as the host delivers it, carrying the status \<open>st\<close>.\<close>

definition request :: "uint32 \<Rightarrow> Status \<Rightarrow> ChangeRequest" where
  "request cmd st = \<lparr>Cmd = cmd, EventType = 0, EventData = 0, CurrentStatus = st, Context = 0\<rparr>"

text \<open>The status reports of a trace, the requests read, and the calls on commands.\<close>

fun sent :: "event list \<Rightarrow> Status list" where
  "sent [] = []"
| "sent (StatusSend st # es) = st # sent es"
| "sent (_ # es) = sent es"

fun received :: "event list \<Rightarrow> ChangeRequest list" where
  "received [] = []"
| "received (ChangeRecv r # es) = r # received es"
| "received (_ # es) = received es"

fun starts :: "event list \<Rightarrow> nat list" where
  "starts [] = []"
| "starts (Cmd_Run h k # es) = h # starts es"
| "starts (_ # es) = starts es"

fun closes :: "event list \<Rightarrow> nat list" where
  "closes [] = []"
| "closes (Cmd_Close h # es) = h # closes es"
| "closes (_ # es) = closes es"

text \<open>The events one request adds to the trace.\<close>

definition step_events :: "windowsService \<Rightarrow> ChangeRequest \<Rightarrow> exec \<Rightarrow> event list" where
  "step_events s changeReq x = drop (length (trace x)) (trace (snd (switch_Cmd s changeReq x)))"

text \<open>\<open>occurs_before a b es\<close>: \<open>a\<close> occurs in \<open>es\<close>, and \<open>b\<close> occurs after its first
  occurrence.\<close>

definition occurs_before :: "event \<Rightarrow> event \<Rightarrow> event list \<Rightarrow> bool" where
  "occurs_before a b es = (b \<in> set (drop 1 (dropWhile (\<lambda>e. e \<noteq> a) es)))"

text \<open>
  The live command after a trace, starting from \<open>l\<close>: \<^verbatim>\<open>Run\<close> makes a command
  live, \<^verbatim>\<open>Close\<close> of the live command leaves none, \<^verbatim>\<open>Close\<close> of any other changes
  nothing. \<open>one_live l es\<close> holds when every \<^verbatim>\<open>Run\<close> in \<open>es\<close> happens while no command is
  live, so that never two are.
\<close>

fun live_after :: "nat option \<Rightarrow> event list \<Rightarrow> nat option" where
  "live_after l [] = l"
| "live_after l (Cmd_Run h k # es) = live_after (Some h) es"
| "live_after l (Cmd_Close h # es) = live_after (if l = Some h then None else l) es"
| "live_after l (_ # es) = live_after l es"

fun one_live :: "nat option \<Rightarrow> event list \<Rightarrow> bool" where
  "one_live l [] = True"
| "one_live l (Cmd_Run h k # es) = (l = None \<and> one_live (Some h) es)"
| "one_live l (Cmd_Close h # es) = one_live (if l = Some h then None else l) es"
| "one_live l (_ # es) = one_live l es"

text \<open>A run of four requests, each carrying the status last reported before it, as
  the host fills it in.\<close>

definition scenario :: "ChangeRequest list" where
  "scenario =
     [request svc_Pause (Status_zero\<lparr>State := svc_Running, Accepts := accepts\<rparr>),
      request svc_Interrogate (Status_zero\<lparr>State := svc_Paused, Accepts := accepts\<rparr>),
      request svc_Continue (Status_zero\<lparr>State := svc_Paused, Accepts := accepts\<rparr>),
      request svc_Stop (Status_zero\<lparr>State := svc_Running, Accepts := accepts\<rparr>)]"

text \<open>The destinations given to \<^verbatim>\<open>log.SetOutput\<close>, in order.\<close>

fun outputs :: "event list \<Rightarrow> writer list" where
  "outputs [] = []"
| "outputs (log_SetOutput w # es) = w # outputs es"
| "outputs (_ # es) = outputs es"

text \<open>The invariant of the loop: the trace never had two live commands, and the
  command still live, if any, is the one \<^verbatim>\<open>c\<close> holds.\<close>

definition current_only :: "exec \<Rightarrow> bool" where
  "current_only x =
     (one_live None (trace x) \<and>
      (live_after None (trace x) = None \<or> live_after None (trace x) = Some (c_cur x)))"

section \<open>\<^verbatim>\<open>eventlogWriter.Write\<close>\<close>

datatype error = errStop | errorString string

text \<open>
  Modelled from the spec: the log sink behind \<^verbatim>\<open>eventlog.Log\<close>, which is not part of
  the repository. It supports \<^verbatim>\<open>info(eventID, message)\<close>; a call either persists one
  informational record or fails with the sink's error (the sink closed or unregistered,
  say). \<open>submitted\<close> lists every record handed to the sink, \<open>records\<close> those it
  persisted, \<open>fault\<close> the error it answers with, if any.
\<close>

definition eventlog_Error :: uint32 where "eventlog_Error = 1"
definition eventlog_Warning :: uint32 where "eventlog_Warning = 2"
definition eventlog_Info :: uint32 where "eventlog_Info = 4"

record eventlog_Log =
  submitted :: "(uint32 \<times> uint32 \<times> string) list"
  records :: "(uint32 \<times> uint32 \<times> string) list"
  fault :: "error option"

definition Log_Info :: "eventlog_Log \<Rightarrow> uint32 \<Rightarrow> string \<Rightarrow> error option \<times> eventlog_Log" where
  "Log_Info l eid msg =
     (case fault l of
        None \<Rightarrow>
          (None, l\<lparr>submitted := submitted l @ [(eventlog_Info, eid, msg)],
                    records := records l @ [(eventlog_Info, eid, msg)]\<rparr>)
      | Some e \<Rightarrow>
          (Some e, l\<lparr>submitted := submitted l @ [(eventlog_Info, eid, msg)]\<rparr>))"

text \<open>\<^verbatim>\<open>string(p)\<close>: the bytes of the slice, one character each.\<close>

definition string_of_bytes :: "8 word list \<Rightarrow> string" where
  "string_of_bytes p = map (\<lambda>b. char_of (unat b)) p"

text \<open>\<^verbatim>\<open>return 0, (*eventlog.Log)(w).Info(1, string(p))\<close>: the pair \<open>(n, err)\<close> and the
  sink afterwards. The method \<^verbatim>\<open>Info\<close> of the sink is a parameter; \<open>Log_Info\<close> above is
  the one of the modelled sink.\<close>

definition Write ::
  "('log \<Rightarrow> uint32 \<Rightarrow> string \<Rightarrow> error option \<times> 'log) \<Rightarrow> 'log \<Rightarrow> 8 word list \<Rightarrow>
     (int \<times> error option) \<times> 'log" where
  "Write Info w p = (case Info w 1 (string_of_bytes p) of (err, w') \<Rightarrow> ((0, err), w'))"

section \<open>\<^verbatim>\<open>runWindowsService\<close>\<close>

definition serviceName :: string where
  "serviceName = ''Litestream''"

text \<open>
  What the calls outside the repository answer during one run: the error of
  \<^verbatim>\<open>eventlog.Open\<close> and of \<^verbatim>\<open>eventlog.InstallAsEventCreate\<close>, if any; for
  \<^verbatim>\<open>svc.Run\<close>, the error with which it fails before the handler is entered, if any,
  and otherwise the arguments and the control requests it hands to the handler's
  \<^verbatim>\<open>Execute\<close>, and how its own service loop ends while \<^verbatim>\<open>Execute\<close> is still
  blocked (\<open>Run_end\<close>): not at all (\<open>None\<close>), with \<^verbatim>\<open>nil\<close> (\<open>Some None\<close>), or with an
  error (\<open>Some (Some e)\<close>). An error of these calls is given by its message (the text
  \<^verbatim>\<open>%s\<close> prints).
\<close>

record host =
  Open_err :: "string option"
  Install_err :: "string option"
  Run_start_err :: "string option"
  Run_args :: "string list"
  Run_requests :: "ChangeRequest list"
  Run_end :: "string option option"

text \<open>The process: the destination of the standard logger, and the trace.\<close>

record process =
  log_output :: writer
  events :: "event list"

text \<open>
  \<^verbatim>\<open>svc.Run(serviceName, handler)\<close>, with the same results as
  \<^verbatim>\<open>runWindowsService\<close> below. Once \<^verbatim>\<open>Execute\<close> has returned, \<^verbatim>\<open>svc.Run\<close>
  returns too, with \<^verbatim>\<open>nil\<close> unless its loop ended with an error; while \<^verbatim>\<open>Execute\<close>
  has not returned, it ends as the host has it.
\<close>

definition svc_Run ::
  "host \<Rightarrow> windowsService \<Rightarrow> process \<Rightarrow> process \<times> string option option" where
  "svc_Run h handler p =
     (case Run_start_err h of
        Some e \<Rightarrow> (p, Some (Some e))
      | None \<Rightarrow>
          (case Execute handler (Run_args h) (Run_requests h) of
             (x, None) \<Rightarrow> (p\<lparr>events := events p @ trace x\<rparr>, Run_end h)
           | (x, Some (ssec, errno)) \<Rightarrow>
               (p\<lparr>events := events p @ trace x\<rparr>,
                (case Run_end h of None \<Rightarrow> Some None | Some res \<Rightarrow> Some res))))"

text \<open>The deferred calls, in the order they run at a return: the one registered last
  first.\<close>

definition deferred_SetOutput :: "process \<Rightarrow> process" where
  "deferred_SetOutput p =
     p\<lparr>log_output := os_Stderr, events := events p @ [log_SetOutput os_Stderr]\<rparr>"

definition deferred_Close :: "process \<Rightarrow> process" where
  "deferred_Close p = p\<lparr>events := events p @ [elog_Close]\<rparr>"

text \<open>
  \<^verbatim>\<open>runWindowsService(ctx)\<close>. The result \<open>None\<close> is a call that has not returned
  (\<^verbatim>\<open>svc.Run\<close> has not); \<open>Some None\<close> is the return of \<^verbatim>\<open>nil\<close>, \<open>Some (Some e)\<close> of
  the error \<open>e\<close>.
\<close>

definition runWindowsService :: "host \<Rightarrow> nat \<Rightarrow> process \<Rightarrow> process \<times> error option option" where
  "runWindowsService h ctx0 p =
     (let p1 = p\<lparr>events := events p @ [eventlog_Open serviceName]\<rparr> in
      case Open_err h of
        Some e \<Rightarrow> (p1, Some (Some (errorString e)))
      | None \<Rightarrow>
          (let p2 = p1\<lparr>log_output := eventlogWriter,
                       events := events p1 @
                         [log_SetOutput eventlogWriter,
                          eventlog_InstallAsEventCreate serviceName
                            (eventlog_Error OR eventlog_Warning OR eventlog_Info)]\<rparr> in
           case Install_err h of
             Some e \<Rightarrow>
               (deferred_Close (deferred_SetOutput p2),
                Some (Some (errorString (''cannot install event log: '' @ e))))
           | None \<Rightarrow>
               (let p3 = p2\<lparr>events := events p2 @ [elog_Info 1 ''Litestream service starting'']\<rparr> in
                case svc_Run h \<lparr>ctx = ctx0\<rparr> p3 of
                  (p4, None) \<Rightarrow> (p4, None)
                | (p4, Some (Some err)) \<Rightarrow>
                    (deferred_Close (deferred_SetOutput
                       (p4\<lparr>events := events p4 @
                          [elog_Error 1 (''Litestream service failed: '' @ err)]\<rparr>)),
                     Some (Some errStop))
                | (p4, Some None) \<Rightarrow>
                    (deferred_Close (deferred_SetOutput
                       (p4\<lparr>events := events p4 @ [elog_Info 1 ''Litestream service exited'']\<rparr>)),
                     Some None))))"

section \<open>Basic facts\<close>

lemmas svc_consts =
  svc_Stop_def svc_Pause_def svc_Continue_def svc_Interrogate_def svc_Shutdown_def
  svc_StartPending_def svc_StopPending_def svc_Running_def svc_Paused_def
  svc_AcceptStop_def svc_AcceptPauseAndContinue_def svc_AcceptShutdown_def

lemma accepts_value: "accepts = 7"
  by (simp add: accepts_def svc_consts)

lemma accepted_accepts: "accepted accepts = {svc_Stop, svc_Shutdown, svc_Pause, svc_Continue}"
  by (auto simp add: accepted_def accepts_value svc_AcceptStop_def svc_AcceptShutdown_def
      svc_AcceptPauseAndContinue_def)

lemma accepted_zero: "accepted 0 = {}"
  by (simp add: accepted_def)

lemma switch_Cmd_flow: "fst (switch_Cmd s r x) = Next_iteration"
  by (simp add: switch_Cmd_def)

lemma step_events_eq:
  "step_events s r x =
     (if Cmd r = svc_Interrogate then
        [elog_Info 1 ''Litestream service interrograted'', StatusSend (CurrentStatus r)]
      else if Cmd r = svc_Stop then
        [elog_Info 1 ''Litestream service stopped'', Cmd_Close (c_cur x),
         StatusSend (Status_zero\<lparr>State := svc_StopPending\<rparr>)]
      else if Cmd r = svc_Shutdown then
        [elog_Info 1 ''Litestream service shutting down'', Cmd_Close (c_cur x),
         StatusSend (Status_zero\<lparr>State := svc_StopPending\<rparr>)]
      else if Cmd r = svc_Pause then
        [elog_Info 1 ''Litestream service paused'', Cmd_Close (c_cur x),
         StatusSend (Status_zero\<lparr>State := svc_Paused, Accepts := accepts\<rparr>)]
      else if Cmd r = svc_Continue then
        [elog_Info 1 ''Litestream service continuing'', Cmd_Close (c_cur x),
         Cmd_New (allocated x), Cmd_Run (allocated x) (ctx s),
         StatusSend (Status_zero\<lparr>State := svc_Running, Accepts := accepts\<rparr>)]
      else
        [elog_Error 1 (''unexpected control request #'' @ fmt_d_ChangeRequest r)])"
  by (simp add: step_events_def switch_Cmd_def)

lemma trace_switch_Cmd: "trace (snd (switch_Cmd s r x)) = trace x @ step_events s r x"
  by (simp add: step_events_def switch_Cmd_def)

lemma c_cur_switch_Cmd:
  "c_cur (snd (switch_Cmd s r x)) = (if Cmd r = svc_Continue then allocated x else c_cur x)"
  by (simp add: switch_Cmd_def svc_consts)

lemma Execute_loop_Cons:
  "Execute_loop s x (r # rest) =
     Execute_loop s (snd (switch_Cmd s r (x\<lparr>trace := trace x @ [ChangeRecv r]\<rparr>))) rest"
proof -
  obtain f x' where sw: "switch_Cmd s r (x\<lparr>trace := trace x @ [ChangeRecv r]\<rparr>) = (f, x')"
    by (cases "switch_Cmd s r (x\<lparr>trace := trace x @ [ChangeRecv r]\<rparr>)")
  with switch_Cmd_flow [of s r "x\<lparr>trace := trace x @ [ChangeRecv r]\<rparr>"]
  have "f = Next_iteration" by simp
  with sw show ?thesis by simp
qed

lemma Execute_loop_not_returned: "snd (Execute_loop s x reqs) = None"
proof (induction reqs arbitrary: x)
  case Nil
  show ?case by simp
next
  case (Cons r rest)
  show ?case unfolding Execute_loop_Cons by (rule Cons.IH)
qed

lemma received_append: "received (es @ fs) = received es @ received fs"
  by (induction es rule: received.induct) simp_all

lemma received_step_events: "received (step_events s r x) = []"
  by (simp add: step_events_eq)

lemma Execute_loop_trace:
  "\<exists>es. trace (fst (Execute_loop s x reqs)) = trace x @ es \<and> received es = reqs"
proof (induction reqs arbitrary: x)
  case Nil
  show ?case by simp
next
  case (Cons r rest)
  let ?x1 = "x\<lparr>trace := trace x @ [ChangeRecv r]\<rparr>"
  let ?x2 = "snd (switch_Cmd s r ?x1)"
  from Cons.IH [of ?x2] obtain es where
    es: "trace (fst (Execute_loop s ?x2 rest)) = trace ?x2 @ es" "received es = rest"
    by blast
  have "trace (fst (Execute_loop s x (r # rest))) =
        trace x @ (ChangeRecv r # step_events s r ?x1 @ es)"
    unfolding Execute_loop_Cons using es(1) by (simp add: trace_switch_Cmd)
  moreover have "received (ChangeRecv r # step_events s r ?x1 @ es) = r # rest"
    using es(2) by (simp add: received_append received_step_events)
  ultimately show ?case by blast
qed

lemma live_after_append: "live_after l (es @ fs) = live_after (live_after l es) fs"
  by (induction l es rule: live_after.induct) simp_all

lemma one_live_append:
  "one_live l (es @ fs) = (one_live l es \<and> one_live (live_after l es) fs)"
  by (induction l es rule: one_live.induct) simp_all

lemma one_live_rejects_second_Run: "\<not> one_live None [Cmd_Run 0 k, Cmd_New 1, Cmd_Run 1 k]"
  by simp

lemma current_only_start: "current_only (Execute_start s)"
  by (simp add: current_only_def Execute_start_def)

lemma current_only_step:
  assumes "current_only x"
  shows "current_only (snd (switch_Cmd s r (x\<lparr>trace := trace x @ [ChangeRecv r]\<rparr>)))"
proof -
  let ?x1 = "x\<lparr>trace := trace x @ [ChangeRecv r]\<rparr>"
  have x1: "current_only ?x1"
    using assms by (simp add: current_only_def one_live_append live_after_append)
  show ?thesis
  proof (cases "Cmd r = svc_Continue")
    case True
    then have ev: "step_events s r ?x1 =
        [elog_Info 1 ''Litestream service continuing'', Cmd_Close (c_cur x),
         Cmd_New (allocated x), Cmd_Run (allocated x) (ctx s),
         StatusSend (Status_zero\<lparr>State := svc_Running, Accepts := accepts\<rparr>)]"
      by (simp add: step_events_eq svc_consts)
    from x1 True show ?thesis
      unfolding current_only_def trace_switch_Cmd c_cur_switch_Cmd ev
      by (auto simp add: one_live_append live_after_append)
  next
    case False
    from x1 False show ?thesis
      unfolding current_only_def trace_switch_Cmd c_cur_switch_Cmd
      by (auto simp add: one_live_append live_after_append step_events_eq)
  qed
qed

lemma current_only_loop:
  "current_only x \<Longrightarrow> current_only (fst (Execute_loop s x reqs))"
proof (induction reqs arbitrary: x)
  case Nil
  then show ?case by simp
next
  case (Cons r rest)
  show ?case
    unfolding Execute_loop_Cons
    by (rule Cons.IH) (rule current_only_step [OF Cons.prems])
qed

lemma byte_char_roundtrip: "word_of_nat (unat b mod 256) = (b :: 8 word)"
proof -
  have "unat b < 256" using unsigned_less [of b] by simp
  then show ?thesis by simp
qed

lemma string_of_bytes_roundtrip:
  "map (\<lambda>c. word_of_nat (of_char c)) (string_of_bytes p) = p"
  by (induction p) (simp_all add: string_of_bytes_def byte_char_roundtrip)

lemma string_of_bytes_hello: "string_of_bytes [104, 101, 108, 108, 111] = ''hello''"
  by (simp add: string_of_bytes_def char_of_def bit_0)

lemma Write_hello:
  "Write Log_Info \<lparr>submitted = [], records = [], fault = None\<rparr> [104, 101, 108, 108, 111] =
     ((0, None),
      \<lparr>submitted = [(eventlog_Info, 1, ''hello'')], records = [(eventlog_Info, 1, ''hello'')],
       fault = None\<rparr>)"
  unfolding Write_def string_of_bytes_hello by (simp add: Log_Info_def)

lemma Write_sink_closed:
  "Write Log_Info \<lparr>submitted = [], records = [], fault = Some (errorString ''closed'')\<rparr>
     [104, 101, 108, 108, 111] =
     ((0, Some (errorString ''closed'')),
      \<lparr>submitted = [(eventlog_Info, 1, ''hello'')], records = [],
       fault = Some (errorString ''closed'')\<rparr>)"
  unfolding Write_def string_of_bytes_hello by (simp add: Log_Info_def)

lemma unexpected_request_message:
  "step_events s (request 6 Status_zero) x =
     [elog_Error 1 ''unexpected control request #{6 0 0 {0 0 0 0 0 0 0} 0}'']"
  by (simp add: step_events_eq svc_consts request_def fmt_d_ChangeRequest_def fmt_d_Status_def
      Status_zero_def decimal.simps)

lemma outputs_append: "outputs (es @ fs) = outputs es @ outputs fs"
  by (induction es rule: outputs.induct) simp_all

lemma outputs_step_events: "outputs (step_events s r x) = []"
  by (simp add: step_events_eq)

lemma outputs_Execute_loop: "outputs (trace (fst (Execute_loop s x reqs))) = outputs (trace x)"
proof (induction reqs arbitrary: x)
  case Nil
  show ?case by simp
next
  case (Cons r rest)
  show ?case
    unfolding Execute_loop_Cons Cons.IH
    by (simp add: trace_switch_Cmd outputs_append outputs_step_events)
qed

lemma outputs_Execute: "outputs (trace (fst (Execute s args reqs))) = []"
  by (simp add: Execute_def outputs_Execute_loop) (simp add: Execute_start_def)

lemma Execute_not_returned: "snd (Execute s args reqs) = None"
  by (simp add: Execute_def Execute_loop_not_returned)

lemma svc_Run_eq:
  "svc_Run h handler p =
     (case Run_start_err h of
        Some e \<Rightarrow> (p, Some (Some e))
      | None \<Rightarrow>
          (p\<lparr>events := events p @ trace (fst (Execute handler (Run_args h) (Run_requests h)))\<rparr>,
           Run_end h))"
proof -
  obtain x res where e: "Execute handler (Run_args h) (Run_requests h) = (x, res)"
    by (cases "Execute handler (Run_args h) (Run_requests h)")
  with Execute_not_returned [of handler "Run_args h" "Run_requests h"]
  have "res = None" by simp
  with e show ?thesis by (simp add: svc_Run_def split: option.splits)
qed

text \<open>The three ways \<^verbatim>\<open>runWindowsService\<close> ends after the handler was entered.\<close>

lemma runWindowsService_result:
  "Open_err h = None \<Longrightarrow> Install_err h = None \<Longrightarrow> Run_start_err h = None \<Longrightarrow>
   snd (runWindowsService h ctx0 p) =
     (case Run_end h of
        None \<Rightarrow> None
      | Some None \<Rightarrow> Some None
      | Some (Some e) \<Rightarrow> Some (Some errStop))"
  by (simp add: runWindowsService_def svc_Run_eq Let_def split: option.splits)

lemma digit_value_nth: "d < 10 \<Longrightarrow> digit_value (''0123456789'' ! d) = d"
proof -
  assume "d < 10"
  then have "d \<in> {0, 1, 2, 3, 4, 5, 6, 7, 8, 9}" by auto
  then show ?thesis by (auto simp add: digit_value_def)
qed

lemma parse_decimal_snoc:
  "parse_decimal (cs @ [ch]) = 10 * parse_decimal cs + digit_value ch"
  by (simp add: parse_decimal_def)

lemma parse_decimal_decimal: "parse_decimal (decimal n) = n"
proof (induction n rule: decimal.induct)
  case (1 n)
  show ?case
  proof (cases "n < 10")
    case True
    then show ?thesis
      by (subst decimal.simps) (simp add: parse_decimal_def digit_value_nth)
  next
    case False
    with 1 have "parse_decimal (decimal (n div 10)) = n div 10" by simp
    with False show ?thesis
      by (subst decimal.simps) (simp add: parse_decimal_snoc digit_value_nth)
  qed
qed

lemma decimal_inj: "decimal m = decimal n \<Longrightarrow> m = n"
  by (metis parse_decimal_decimal)



lemma scenario_trace:
  "trace (fst (Execute \<lparr>ctx = 0\<rparr> [] scenario)) =
     [StatusSend (Status_zero\<lparr>State := svc_StartPending\<rparr>),
      Cmd_New 0,
      Cmd_Run 0 0,
      StatusSend (Status_zero\<lparr>State := svc_Running, Accepts := accepts\<rparr>),
      ChangeRecv (request svc_Pause (Status_zero\<lparr>State := svc_Running, Accepts := accepts\<rparr>)),
      elog_Info 1 ''Litestream service paused'',
      Cmd_Close 0,
      StatusSend (Status_zero\<lparr>State := svc_Paused, Accepts := accepts\<rparr>),
      ChangeRecv (request svc_Interrogate (Status_zero\<lparr>State := svc_Paused, Accepts := accepts\<rparr>)),
      elog_Info 1 ''Litestream service interrograted'',
      StatusSend (Status_zero\<lparr>State := svc_Paused, Accepts := accepts\<rparr>),
      ChangeRecv (request svc_Continue (Status_zero\<lparr>State := svc_Paused, Accepts := accepts\<rparr>)),
      elog_Info 1 ''Litestream service continuing'',
      Cmd_Close 0,
      Cmd_New 1,
      Cmd_Run 1 0,
      StatusSend (Status_zero\<lparr>State := svc_Running, Accepts := accepts\<rparr>),
      ChangeRecv (request svc_Stop (Status_zero\<lparr>State := svc_Running, Accepts := accepts\<rparr>)),
      elog_Info 1 ''Litestream service stopped'',
      Cmd_Close 1,
      StatusSend (Status_zero\<lparr>State := svc_StopPending\<rparr>)]"
  by (simp add: scenario_def Execute_def Execute_start_def switch_Cmd_def request_def svc_consts)

text \<open>A Continue that arrives after a Stop starts a second command.\<close>

lemma Execute_Stop_then_Continue:
  "Execute \<lparr>ctx = 0\<rparr> []
     [request svc_Stop (Status_zero\<lparr>State := svc_Running, Accepts := accepts\<rparr>),
      request svc_Continue (Status_zero\<lparr>State := svc_StopPending\<rparr>)] =
   (\<lparr>c_cur = 1, allocated = 2,
     trace =
       [StatusSend (Status_zero\<lparr>State := svc_StartPending\<rparr>),
        Cmd_New 0,
        Cmd_Run 0 0,
        StatusSend (Status_zero\<lparr>State := svc_Running, Accepts := accepts\<rparr>),
        ChangeRecv (request svc_Stop (Status_zero\<lparr>State := svc_Running, Accepts := accepts\<rparr>)),
        elog_Info 1 ''Litestream service stopped'',
        Cmd_Close 0,
        StatusSend (Status_zero\<lparr>State := svc_StopPending\<rparr>),
        ChangeRecv (request svc_Continue (Status_zero\<lparr>State := svc_StopPending\<rparr>)),
        elog_Info 1 ''Litestream service continuing'',
        Cmd_Close 0,
        Cmd_New 1,
        Cmd_Run 1 0,
        StatusSend (Status_zero\<lparr>State := svc_Running, Accepts := accepts\<rparr>)]\<rparr>,
    None)"
  by (simp add: Execute_def Execute_start_def switch_Cmd_def request_def svc_consts)

section \<open>The claims\<close>

text \<open>
  C1. The claim: once a Stop or Shutdown request has been processed, the control loop
  ends, \<^verbatim>\<open>Execute\<close> returns and no further request is read. The code run on a Stop
  followed by an Interrogate (which a host may send at any time): the Interrogate is read
  and answered after the StopPending report, and \<^verbatim>\<open>Execute\<close> has not returned.
\<close>

theorem C1_Execute_after_Stop:
  "Execute \<lparr>ctx = 0\<rparr> []
     [request svc_Stop (Status_zero\<lparr>State := svc_Running, Accepts := accepts\<rparr>),
      request svc_Interrogate (Status_zero\<lparr>State := svc_StopPending\<rparr>)] =
   (\<lparr>c_cur = 0, allocated = 1,
     trace =
       [StatusSend (Status_zero\<lparr>State := svc_StartPending\<rparr>),
        Cmd_New 0,
        Cmd_Run 0 0,
        StatusSend (Status_zero\<lparr>State := svc_Running, Accepts := accepts\<rparr>),
        ChangeRecv (request svc_Stop (Status_zero\<lparr>State := svc_Running, Accepts := accepts\<rparr>)),
        elog_Info 1 ''Litestream service stopped'',
        Cmd_Close 0,
        StatusSend (Status_zero\<lparr>State := svc_StopPending\<rparr>),
        ChangeRecv (request svc_Interrogate (Status_zero\<lparr>State := svc_StopPending\<rparr>)),
        elog_Info 1 ''Litestream service interrograted'',
        StatusSend (Status_zero\<lparr>State := svc_StopPending\<rparr>)]\<rparr>,
    None)"
  by (simp add: Execute_def Execute_start_def switch_Cmd_def request_def svc_consts)

text \<open>
  C10. \<^verbatim>\<open>Execute\<close> first sends the StartPending report, whose accepts mask is zero and
  admits no request; it then creates and runs the command, and only then sends the
  Running report with the full mask. Every request is read after these four events.
\<close>

theorem C10_Execute_start_order:
  "(\<exists>rest. trace (fst (Execute s args reqs)) =
       [StatusSend (Status_zero\<lparr>State := svc_StartPending\<rparr>),
        Cmd_New 0,
        Cmd_Run 0 (ctx s),
        StatusSend (Status_zero\<lparr>State := svc_Running, Accepts := accepts\<rparr>)] @ rest \<and>
       received rest = reqs) \<and>
   Accepts (Status_zero\<lparr>State := svc_StartPending\<rparr>) = 0 \<and>
   accepted (Accepts (Status_zero\<lparr>State := svc_StartPending\<rparr>)) = {} \<and>
   accepted accepts = {svc_Stop, svc_Shutdown, svc_Pause, svc_Continue}"
proof -
  from Execute_loop_trace [of s "Execute_start s" reqs]
  have "\<exists>rest. trace (fst (Execute s args reqs)) =
       [StatusSend (Status_zero\<lparr>State := svc_StartPending\<rparr>),
        Cmd_New 0,
        Cmd_Run 0 (ctx s),
        StatusSend (Status_zero\<lparr>State := svc_Running, Accepts := accepts\<rparr>)] @ rest \<and>
       received rest = reqs"
    by (simp add: Execute_def Execute_start_def)
  moreover have "Accepts (Status_zero\<lparr>State := svc_StartPending\<rparr>) = 0"
    by (simp add: Status_zero_def)
  ultimately show ?thesis
    by (simp add: accepted_zero accepted_accepts)
qed

text \<open>
  C5. On every sequence of requests, the trace of \<^verbatim>\<open>Execute\<close> never has two live
  commands: each \<^verbatim>\<open>Run\<close> happens when no command is live, the one started before
  having been closed; and the command live at the end, if any, is the one \<^verbatim>\<open>c\<close>
  holds. The requests being arbitrary, this covers every state the loop reaches.
\<close>

theorem C5_at_most_one_live:
  "one_live None (trace (fst (Execute s args reqs))) \<and>
   (live_after None (trace (fst (Execute s args reqs))) = None \<or>
    live_after None (trace (fst (Execute s args reqs))) = Some (c_cur (fst (Execute s args reqs))))"
proof -
  have "current_only (fst (Execute s args reqs))"
    unfolding Execute_def by (rule current_only_loop) (rule current_only_start)
  then show ?thesis by (simp add: current_only_def)
qed

text \<open>
  C2. The claim: for a Stop or Shutdown request, the StopPending report is sent before
  the close of the command returns. On the single request Stop the report does not come
  before the close.
\<close>

theorem C2_counterexample:
  "\<not> occurs_before
       (StatusSend (Status_zero\<lparr>State := svc_StopPending\<rparr>))
       (Cmd_Close 0)
       (trace (fst (Execute \<lparr>ctx = 0\<rparr> []
          [request svc_Stop (Status_zero\<lparr>State := svc_Running, Accepts := accepts\<rparr>)]))) \<and>
   occurs_before
       (Cmd_Close 0)
       (StatusSend (Status_zero\<lparr>State := svc_StopPending\<rparr>))
       (trace (fst (Execute \<lparr>ctx = 0\<rparr> []
          [request svc_Stop (Status_zero\<lparr>State := svc_Running, Accepts := accepts\<rparr>)])))"
  by (simp add: occurs_before_def Execute_def Execute_start_def switch_Cmd_def request_def
      svc_consts Status_zero_def)

text \<open>
  C2, amended. For every Stop or Shutdown request, in whatever state, the events of its
  processing are a log record, the close of the current command, and the StopPending
  report, in this order: the report is sent after the close has returned, and is the only
  report of the step.
\<close>

theorem C2_StopPending_after_Close:
  assumes "Cmd r = svc_Stop \<or> Cmd r = svc_Shutdown"
  shows "occurs_before (Cmd_Close (c_cur x))
           (StatusSend (Status_zero\<lparr>State := svc_StopPending\<rparr>)) (step_events s r x) \<and>
         \<not> occurs_before (StatusSend (Status_zero\<lparr>State := svc_StopPending\<rparr>))
           (Cmd_Close (c_cur x)) (step_events s r x) \<and>
         sent (step_events s r x) = [Status_zero\<lparr>State := svc_StopPending\<rparr>] \<and>
         closes (step_events s r x) = [c_cur x] \<and>
         last (step_events s r x) = StatusSend (Status_zero\<lparr>State := svc_StopPending\<rparr>)"
  using assms by (auto simp add: step_events_eq occurs_before_def svc_consts)

theorem C2_StopPending_after_Close_witness:
  "(Cmd (request svc_Shutdown Status_zero) = svc_Stop \<or>
    Cmd (request svc_Shutdown Status_zero) = svc_Shutdown) \<and>
   occurs_before (Cmd_Close 0)
     (StatusSend (Status_zero\<lparr>State := svc_StopPending\<rparr>))
     (step_events \<lparr>ctx = 0\<rparr> (request svc_Shutdown Status_zero) (Execute_start \<lparr>ctx = 0\<rparr>)) \<and>
   \<not> occurs_before (StatusSend (Status_zero\<lparr>State := svc_StopPending\<rparr>))
     (Cmd_Close 0)
     (step_events \<lparr>ctx = 0\<rparr> (request svc_Shutdown Status_zero) (Execute_start \<lparr>ctx = 0\<rparr>))"
proof -
  have h: "Cmd (request svc_Shutdown Status_zero) = svc_Stop \<or>
           Cmd (request svc_Shutdown Status_zero) = svc_Shutdown"
    by (simp add: request_def)
  have c: "c_cur (Execute_start \<lparr>ctx = 0\<rparr>) = 0"
    by (simp add: Execute_start_def)
  from C2_StopPending_after_Close [OF h, of "Execute_start \<lparr>ctx = 0\<rparr>" "\<lparr>ctx = 0\<rparr>"] h
  show ?thesis unfolding c by blast
qed

text \<open>
  C3. The claim: the report for a Pause request has state Paused and accepts exactly
  Continue, Stop and Shutdown, not Pause. On the single request Pause, the mask of the
  Paused report admits Pause too.
\<close>

theorem C3_counterexample:
  "State (last (sent (trace (fst (Execute \<lparr>ctx = 0\<rparr> []
      [request svc_Pause (Status_zero\<lparr>State := svc_Running, Accepts := accepts\<rparr>)]))))) =
     svc_Paused \<and>
   svc_Pause \<in> accepted (Accepts (last (sent (trace (fst (Execute \<lparr>ctx = 0\<rparr> []
      [request svc_Pause (Status_zero\<lparr>State := svc_Running, Accepts := accepts\<rparr>)])))))) \<and>
   accepted (Accepts (last (sent (trace (fst (Execute \<lparr>ctx = 0\<rparr> []
      [request svc_Pause (Status_zero\<lparr>State := svc_Running, Accepts := accepts\<rparr>)])))))) \<noteq>
     {svc_Continue, svc_Stop, svc_Shutdown}"
proof -
  have e: "last (sent (trace (fst (Execute \<lparr>ctx = 0\<rparr> []
      [request svc_Pause (Status_zero\<lparr>State := svc_Running, Accepts := accepts\<rparr>)])))) =
      Status_zero\<lparr>State := svc_Paused, Accepts := accepts\<rparr>"
    by (simp add: Execute_def Execute_start_def switch_Cmd_def request_def svc_consts)
  have "svc_Pause \<notin> {svc_Continue, svc_Stop, svc_Shutdown}"
    by (simp add: svc_consts)
  moreover have "svc_Pause \<in> accepted accepts"
    by (simp add: accepted_accepts)
  ultimately have "accepted accepts \<noteq> {svc_Continue, svc_Stop, svc_Shutdown}"
    by metis
  then show ?thesis
    unfolding e by (simp add: accepted_accepts)
qed

text \<open>
  C3, amended. For every Pause request, in whatever state, the one report sent has state
  Paused and the same mask as the Running report: the constant \<^verbatim>\<open>accepts\<close>, which admits
  Stop, Shutdown, Pause and Continue.
\<close>

theorem C3_Paused_report:
  assumes "Cmd r = svc_Pause"
  shows "sent (step_events s r x) = [Status_zero\<lparr>State := svc_Paused, Accepts := accepts\<rparr>] \<and>
         State (Status_zero\<lparr>State := svc_Paused, Accepts := accepts\<rparr>) = svc_Paused \<and>
         accepted (Accepts (Status_zero\<lparr>State := svc_Paused, Accepts := accepts\<rparr>)) =
           {svc_Stop, svc_Shutdown, svc_Pause, svc_Continue}"
  using assms by (simp add: step_events_eq svc_consts accepted_accepts)

theorem C3_Paused_report_witness:
  "Cmd (request svc_Pause Status_zero) = svc_Pause \<and>
   sent (step_events \<lparr>ctx = 0\<rparr> (request svc_Pause Status_zero) (Execute_start \<lparr>ctx = 0\<rparr>)) =
     [Status_zero\<lparr>State := svc_Paused, Accepts := accepts\<rparr>] \<and>
   accepted (Accepts (Status_zero\<lparr>State := svc_Paused, Accepts := accepts\<rparr>)) =
     {svc_Stop, svc_Shutdown, svc_Pause, svc_Continue}"
proof -
  have h: "Cmd (request svc_Pause Status_zero) = svc_Pause"
    by (simp add: request_def)
  from C3_Paused_report [OF h, of "\<lparr>ctx = 0\<rparr>" "Execute_start \<lparr>ctx = 0\<rparr>"] h
  show ?thesis by blast
qed

text \<open>
  C4. The claim: on the requests Pause, Interrogate, Continue, Stop the reports are
  Running, Paused, Paused (echo), Running, StopPending, with two starts and two closes.
  The Interrogate carries the status last reported, as the host fills it in. The code
  sends six reports and makes three close calls.
\<close>

theorem C4_counterexample:
  "\<not> (map State (sent (trace (fst (Execute \<lparr>ctx = 0\<rparr> [] scenario)))) =
        [svc_Running, svc_Paused, svc_Paused, svc_Running, svc_StopPending] \<and>
      length (starts (trace (fst (Execute \<lparr>ctx = 0\<rparr> [] scenario)))) = 2 \<and>
      length (closes (trace (fst (Execute \<lparr>ctx = 0\<rparr> [] scenario)))) = 2)"
  unfolding scenario_trace by simp

text \<open>
  C4, amended. On these requests the reports are StartPending, Running, Paused, Paused
  (the echo of the status the Interrogate carries), Running, StopPending; there are two
  starts, of the commands 0 and 1, and three close calls: Pause closes command 0,
  Continue closes it once more before it starts command 1, Stop closes command 1.
\<close>

theorem C4_scenario:
  "sent (trace (fst (Execute \<lparr>ctx = 0\<rparr> [] scenario))) =
     [Status_zero\<lparr>State := svc_StartPending\<rparr>,
      Status_zero\<lparr>State := svc_Running, Accepts := accepts\<rparr>,
      Status_zero\<lparr>State := svc_Paused, Accepts := accepts\<rparr>,
      Status_zero\<lparr>State := svc_Paused, Accepts := accepts\<rparr>,
      Status_zero\<lparr>State := svc_Running, Accepts := accepts\<rparr>,
      Status_zero\<lparr>State := svc_StopPending\<rparr>] \<and>
   map State (sent (trace (fst (Execute \<lparr>ctx = 0\<rparr> [] scenario)))) =
     [svc_StartPending, svc_Running, svc_Paused, svc_Paused, svc_Running, svc_StopPending] \<and>
   starts (trace (fst (Execute \<lparr>ctx = 0\<rparr> [] scenario))) = [0, 1] \<and>
   closes (trace (fst (Execute \<lparr>ctx = 0\<rparr> [] scenario))) = [0, 0, 1]"
  unfolding scenario_trace by (simp add: Status_zero_def)

text \<open>
  C6. An Interrogate request, in whatever state, leaves \<^verbatim>\<open>c\<close> and the allocation count
  as they are and the loop running; its events are one log record and one report, the
  status the request carries, so no command is created, run or closed.
\<close>

theorem C6_Interrogate_echo:
  assumes "Cmd r = svc_Interrogate"
  shows "fst (switch_Cmd s r x) = Next_iteration \<and>
         c_cur (snd (switch_Cmd s r x)) = c_cur x \<and>
         allocated (snd (switch_Cmd s r x)) = allocated x \<and>
         trace (snd (switch_Cmd s r x)) = trace x @ step_events s r x \<and>
         step_events s r x =
           [elog_Info 1 ''Litestream service interrograted'', StatusSend (CurrentStatus r)] \<and>
         sent (step_events s r x) = [CurrentStatus r] \<and>
         starts (step_events s r x) = [] \<and>
         closes (step_events s r x) = [] \<and>
         live_after l (step_events s r x) = l"
  using assms by (simp add: step_events_eq trace_switch_Cmd) (simp add: switch_Cmd_def)

theorem C6_Interrogate_echo_witness:
  "Cmd (request svc_Interrogate (Status_zero\<lparr>State := svc_Running, Accepts := accepts\<rparr>)) =
     svc_Interrogate \<and>
   c_cur (snd (switch_Cmd \<lparr>ctx = 0\<rparr>
     (request svc_Interrogate (Status_zero\<lparr>State := svc_Running, Accepts := accepts\<rparr>))
     (Execute_start \<lparr>ctx = 0\<rparr>))) = c_cur (Execute_start \<lparr>ctx = 0\<rparr>) \<and>
   sent (step_events \<lparr>ctx = 0\<rparr>
     (request svc_Interrogate (Status_zero\<lparr>State := svc_Running, Accepts := accepts\<rparr>))
     (Execute_start \<lparr>ctx = 0\<rparr>)) =
     [CurrentStatus
        (request svc_Interrogate (Status_zero\<lparr>State := svc_Running, Accepts := accepts\<rparr>))] \<and>
   CurrentStatus (request svc_Interrogate (Status_zero\<lparr>State := svc_Running, Accepts := accepts\<rparr>)) =
     Status_zero\<lparr>State := svc_Running, Accepts := accepts\<rparr>"
proof -
  have h: "Cmd (request svc_Interrogate (Status_zero\<lparr>State := svc_Running, Accepts := accepts\<rparr>)) =
     svc_Interrogate"
    by (simp add: request_def)
  have e: "CurrentStatus
      (request svc_Interrogate (Status_zero\<lparr>State := svc_Running, Accepts := accepts\<rparr>)) =
     Status_zero\<lparr>State := svc_Running, Accepts := accepts\<rparr>"
    by (simp add: request_def)
  from C6_Interrogate_echo [OF h, of "\<lparr>ctx = 0\<rparr>" "Execute_start \<lparr>ctx = 0\<rparr>"] h e
  show ?thesis by blast
qed



text \<open>
  C8. \<^verbatim>\<open>Write\<close>, for every buffer and every sink: the count returned is 0, the error is
  the one the sink's \<^verbatim>\<open>Info\<close> returned, unchanged, and the sink is left as that single
  call left it. The text handed over is the buffer byte for byte. On the modelled sink:
  exactly one record is submitted, informational, with event id 1 and the buffer as its
  text; it is persisted when the sink has no fault, and otherwise the fault is the error
  returned and nothing is submitted a second time.
\<close>

theorem C8_Write:
  "fst (fst (Write info w p)) = 0 \<and>
   snd (fst (Write info w p)) = fst (info w 1 (string_of_bytes p)) \<and>
   snd (Write info w p) = snd (info w 1 (string_of_bytes p)) \<and>
   length (string_of_bytes p) = length p \<and>
   map (\<lambda>c. word_of_nat (of_char c)) (string_of_bytes p) = p \<and>
   submitted (snd (Write Log_Info l p)) =
     submitted l @ [(eventlog_Info, 1, string_of_bytes p)] \<and>
   records (snd (Write Log_Info l p)) =
     (case fault l of
        None \<Rightarrow> records l @ [(eventlog_Info, 1, string_of_bytes p)]
      | Some e \<Rightarrow> records l) \<and>
   fst (Write Log_Info l p) = (0, fault l)"
proof -
  have "length (string_of_bytes p) = length p"
    by (simp add: string_of_bytes_def)
  moreover have "fst (fst (Write info w p)) = 0 \<and>
      snd (fst (Write info w p)) = fst (info w 1 (string_of_bytes p)) \<and>
      snd (Write info w p) = snd (info w 1 (string_of_bytes p))"
    by (simp add: Write_def split: prod.splits)
  moreover have "submitted (snd (Write Log_Info l p)) =
      submitted l @ [(eventlog_Info, 1, string_of_bytes p)] \<and>
    records (snd (Write Log_Info l p)) =
     (case fault l of
        None \<Rightarrow> records l @ [(eventlog_Info, 1, string_of_bytes p)]
      | Some e \<Rightarrow> records l) \<and>
    fst (Write Log_Info l p) = (0, fault l)"
    by (simp add: Write_def Log_Info_def split: option.splits)
  ultimately show ?thesis
    using string_of_bytes_roundtrip [of p] by simp
qed

text \<open>
  C9. The claim: on every exit path the log destination is again the one that was
  active before entry. With another writer active before entry and
  \<^verbatim>\<open>InstallAsEventCreate\<close> failing, \<^verbatim>\<open>runWindowsService\<close> returns its error and the
  destination is \<^verbatim>\<open>os.Stderr\<close>, not the earlier writer.
\<close>

theorem C9_counterexample:
  "snd (runWindowsService
          \<lparr>Open_err = None, Install_err = Some ''access denied'', Run_start_err = None,
           Run_args = [], Run_requests = [], Run_end = None\<rparr> 0
          \<lparr>log_output = other_Writer 0, events = []\<rparr>) =
     Some (Some (errorString ''cannot install event log: access denied'')) \<and>
   log_output (fst (runWindowsService
          \<lparr>Open_err = None, Install_err = Some ''access denied'', Run_start_err = None,
           Run_args = [], Run_requests = [], Run_end = None\<rparr> 0
          \<lparr>log_output = other_Writer 0, events = []\<rparr>)) = os_Stderr \<and>
   log_output (fst (runWindowsService
          \<lparr>Open_err = None, Install_err = Some ''access denied'', Run_start_err = None,
           Run_args = [], Run_requests = [], Run_end = None\<rparr> 0
          \<lparr>log_output = other_Writer 0, events = []\<rparr>)) \<noteq>
     log_output \<lparr>log_output = other_Writer 0, events = []\<rparr>"
  by (simp add: runWindowsService_def Let_def deferred_SetOutput_def deferred_Close_def)

text \<open>
  C9, amended. When \<^verbatim>\<open>eventlog.Open\<close> fails, \<^verbatim>\<open>runWindowsService\<close> returns with the
  log destination untouched. Otherwise it makes the event log writer the destination,
  and on every path on which it returns after that (the error of
  \<^verbatim>\<open>InstallAsEventCreate\<close>, the error of \<^verbatim>\<open>svc.Run\<close>, the return of \<^verbatim>\<open>nil\<close>) it
  sets the destination to \<^verbatim>\<open>os.Stderr\<close>, whatever was active before entry; while it has
  not returned the destination is the event log writer. These are its only calls of
  \<^verbatim>\<open>log.SetOutput\<close>.
\<close>

theorem C9_log_destination:
  "log_output (fst (runWindowsService h ctx0 p)) =
     (if Open_err h = None then
        (if snd (runWindowsService h ctx0 p) = None then eventlogWriter else os_Stderr)
      else log_output p) \<and>
   outputs (events (fst (runWindowsService h ctx0 p))) =
     outputs (events p) @
     (if Open_err h = None then
        (if snd (runWindowsService h ctx0 p) = None then [eventlogWriter]
         else [eventlogWriter, os_Stderr])
      else [])"
  by (simp add: runWindowsService_def svc_Run_eq Let_def deferred_SetOutput_def
      deferred_Close_def outputs_append outputs_Execute split: option.splits)

text \<open>The statement at a run that returns \<^verbatim>\<open>nil\<close>: the service loop of \<^verbatim>\<open>svc.Run\<close>
  ends after a Stop was handed to the handler.\<close>

theorem C9_log_destination_witness:
  "snd (runWindowsService
          \<lparr>Open_err = None, Install_err = None, Run_start_err = None, Run_args = [],
           Run_requests = [request svc_Stop (Status_zero\<lparr>State := svc_Running, Accepts := accepts\<rparr>)],
           Run_end = Some None\<rparr> 0
          \<lparr>log_output = other_Writer 0, events = []\<rparr>) = Some None \<and>
   log_output (fst (runWindowsService
          \<lparr>Open_err = None, Install_err = None, Run_start_err = None, Run_args = [],
           Run_requests = [request svc_Stop (Status_zero\<lparr>State := svc_Running, Accepts := accepts\<rparr>)],
           Run_end = Some None\<rparr> 0
          \<lparr>log_output = other_Writer 0, events = []\<rparr>)) = os_Stderr \<and>
   outputs (events (fst (runWindowsService
          \<lparr>Open_err = None, Install_err = None, Run_start_err = None, Run_args = [],
           Run_requests = [request svc_Stop (Status_zero\<lparr>State := svc_Running, Accepts := accepts\<rparr>)],
           Run_end = Some None\<rparr> 0
          \<lparr>log_output = other_Writer 0, events = []\<rparr>))) = [eventlogWriter, os_Stderr]"
proof -
  have r: "snd (runWindowsService
          \<lparr>Open_err = None, Install_err = None, Run_start_err = None, Run_args = [],
           Run_requests = [request svc_Stop (Status_zero\<lparr>State := svc_Running, Accepts := accepts\<rparr>)],
           Run_end = Some None\<rparr> 0
          \<lparr>log_output = other_Writer 0, events = []\<rparr>) = Some None"
    by (simp add: runWindowsService_result)
  from C9_log_destination
    [of "\<lparr>Open_err = None, Install_err = None, Run_start_err = None, Run_args = [],
           Run_requests = [request svc_Stop (Status_zero\<lparr>State := svc_Running, Accepts := accepts\<rparr>)],
           Run_end = Some None\<rparr>" 0 "\<lparr>log_output = other_Writer 0, events = []\<rparr>"]
  show ?thesis
    unfolding r by simp
qed

end
